theory Spec2Isabelle
  imports Main "HOL-Library.Multiset"
begin

section \<open>Python values the branch scan works on\<close>

text \<open>
  The subject is \<^verbatim>\<open>src/github_client.py\<close>: the method \<^verbatim>\<open>GitHubClient.classify_branch\<close>,
  the method \<^verbatim>\<open>GitHubClient.compare_branches\<close> and the function \<^verbatim>\<open>scan_repo\<close>.
  Exceptions are values: a function that can raise returns \<open>pyerror + 'a\<close>.
  \<^verbatim>\<open>ConnectionError\<close> stands for the exceptions that \<^verbatim>\<open>requests\<close> raises when a
  request gets no response (connection failure, timeout).
\<close>

datatype pyerror = ValueError | TypeError | KeyError | ConnectionError

subsection \<open>\<^verbatim>\<open>datetime.datetime\<close> and \<^verbatim>\<open>datetime.timedelta\<close>\<close>

text \<open>
  A \<^verbatim>\<open>datetime\<close> is its wall-clock reading, counted in microseconds on the proleptic
  Gregorian calendar the way Python counts ordinals (day 1 is 0001-01-01), together with
  the UTC offset of its \<^verbatim>\<open>tzinfo\<close> in microseconds; a naive value has no offset.
  A \<^verbatim>\<open>timedelta\<close> is an integer number of microseconds.
\<close>

record datetime =
  wall_us :: int
  utcoffset :: "int option"

definition is_leap :: "int \<Rightarrow> bool" where
  "is_leap y = (y mod 4 = 0 \<and> (if y mod 100 = 0 then y mod 400 = 0 else True))"

definition days_before_year :: "int \<Rightarrow> int" where
  "days_before_year y = (let p = y - 1 in p * 365 + p div 4 - p div 100 + p div 400)"

definition days_in_month :: "int \<Rightarrow> int \<Rightarrow> int" where
  "days_in_month y m =
     (if m = 2 \<and> is_leap y then 29
      else if 1 \<le> m \<and> m \<le> 12
        then [31, 28, 31, 30, 31, 30, 31, 31, 30, 31, 30, 31] ! nat (m - 1)
        else 0)"

definition days_before_month :: "int \<Rightarrow> int \<Rightarrow> int" where
  "days_before_month y m =
     (if 1 \<le> m \<and> m \<le> 12
        then [0, 31, 59, 90, 120, 151, 181, 212, 243, 273, 304, 334] ! nat (m - 1)
        else 0)
     + (if m > 2 \<and> is_leap y then 1 else 0)"

definition ymd2ord :: "int \<Rightarrow> int \<Rightarrow> int \<Rightarrow> int" where
  "ymd2ord y m d = days_before_year y + days_before_month y m + d"

definition us_per_day :: int where
  "us_per_day = 86400000000"

definition wall_clock :: "int \<Rightarrow> int \<Rightarrow> int \<Rightarrow> int \<Rightarrow> int \<Rightarrow> int \<Rightarrow> int \<Rightarrow> int" where
  "wall_clock y m d hh mm ss us =
     (((ymd2ord y m d * 24 + hh) * 60 + mm) * 60 + ss) * 1000000 + us"

text \<open>
  The constructor \<^verbatim>\<open>datetime(year, month, day, hour, minute, second, microsecond, tzinfo)\<close>
  raises \<^verbatim>\<open>ValueError\<close> (here \<open>None\<close>) on a field out of range; \<^verbatim>\<open>timezone(offset)\<close>
  does so unless the offset lies strictly between minus and plus 24 hours.
\<close>

definition new_datetime ::
  "int \<Rightarrow> int \<Rightarrow> int \<Rightarrow> int \<Rightarrow> int \<Rightarrow> int \<Rightarrow> int \<Rightarrow> int option \<Rightarrow> datetime option" where
  "new_datetime y m d hh mm ss us tz =
     (if 1 \<le> y \<and> y \<le> 9999 \<and> 1 \<le> m \<and> m \<le> 12 \<and> 1 \<le> d \<and> d \<le> days_in_month y m
         \<and> 0 \<le> hh \<and> hh \<le> 23 \<and> 0 \<le> mm \<and> mm \<le> 59 \<and> 0 \<le> ss \<and> ss \<le> 59
         \<and> 0 \<le> us \<and> us \<le> 999999
         \<and> (case tz of None \<Rightarrow> True | Some off \<Rightarrow> - us_per_day < off \<and> off < us_per_day)
      then Some \<lparr>wall_us = wall_clock y m d hh mm ss us, utcoffset = tz\<rparr>
      else None)"

text \<open>
  \<^verbatim>\<open>datetime.datetime.now(datetime.timezone.utc)\<close>: the reading of the UTC clock, as an
  aware value with offset zero. The clock reading is an input of the model.
\<close>

definition datetime_now_utc :: "int \<Rightarrow> datetime" where
  "datetime_now_utc clock = \<lparr>wall_us = clock, utcoffset = Some 0\<rparr>"

text \<open>
  \<^verbatim>\<open>a - b\<close> on two datetimes: the difference of the wall clocks when both are naive, of
  the UTC instants when both are aware, and \<^verbatim>\<open>TypeError\<close> when one is naive and the
  other aware.
\<close>

definition datetime_sub :: "datetime \<Rightarrow> datetime \<Rightarrow> pyerror + int" where
  "datetime_sub a b =
     (case utcoffset a of
        None \<Rightarrow> (case utcoffset b of
                  None \<Rightarrow> Inr (wall_us a - wall_us b)
                | Some ob \<Rightarrow> Inl TypeError)
      | Some oa \<Rightarrow> (case utcoffset b of
                  None \<Rightarrow> Inl TypeError
                | Some ob \<Rightarrow> Inr ((wall_us a - oa) - (wall_us b - ob))))"

text \<open>\<^verbatim>\<open>timedelta.days\<close>: the normalised day count, rounded towards minus infinity.\<close>

definition days :: "int \<Rightarrow> int" where
  "days delta = delta div us_per_day"

subsection \<open>\<^verbatim>\<open>datetime.fromisoformat\<close>\<close>

text \<open>
  The library parser on the format that \<^verbatim>\<open>datetime.isoformat\<close> writes,
  \<^verbatim>\<open>YYYY-MM-DD[*HH[:MM[:SS[.fff[fff]]]][+HH:MM[:SS[.ffffff]]]]\<close>, following the steps of
  the library's own Python implementation; every other string is \<^verbatim>\<open>ValueError\<close>, here
  \<open>None\<close>. The models of the repository's functions below take the parser as an
  argument, so that their general theorems hold for whatever the installed library
  accepts; this definition serves the concrete scenarios.
\<close>

definition digit :: "char \<Rightarrow> int option" where
  "digit c = (let n = (of_char c :: nat) in if 48 \<le> n \<and> n \<le> 57 then Some (int n - 48) else None)"

fun number :: "string \<Rightarrow> int \<Rightarrow> int option" where
  "number [] acc = Some acc"
| "number (c # cs) acc = (case digit c of None \<Rightarrow> None | Some d \<Rightarrow> number cs (acc * 10 + d))"

definition field :: "nat \<Rightarrow> string \<Rightarrow> (int \<times> string) option" where
  "field n s =
     (if length s < n then None
      else case number (take n s) 0 of None \<Rightarrow> None | Some v \<Rightarrow> Some (v, drop n s))"

definition fraction :: "string \<Rightarrow> int option" where
  "fraction f =
     (if length f = 3 then (case number f 0 of None \<Rightarrow> None | Some v \<Rightarrow> Some (v * 1000))
      else if length f = 6 then number f 0
      else None)"

definition parse_hh_mm_ss_ff :: "string \<Rightarrow> (int \<times> int \<times> int \<times> int) option" where
  "parse_hh_mm_ss_ff tstr =
     (case field 2 tstr of
        None \<Rightarrow> None
      | Some (hh, []) \<Rightarrow> Some (hh, 0, 0, 0)
      | Some (hh, c1 # r1) \<Rightarrow>
          if c1 \<noteq> CHR '':'' then None
          else (case field 2 r1 of
            None \<Rightarrow> None
          | Some (mm, []) \<Rightarrow> Some (hh, mm, 0, 0)
          | Some (mm, c2 # r2) \<Rightarrow>
              if c2 \<noteq> CHR '':'' then None
              else (case field 2 r2 of
                None \<Rightarrow> None
              | Some (ss, []) \<Rightarrow> Some (hh, mm, ss, 0)
              | Some (ss, c3 # r3) \<Rightarrow>
                  if c3 \<noteq> CHR ''.'' then None
                  else (case fraction r3 of
                    None \<Rightarrow> None
                  | Some us \<Rightarrow> Some (hh, mm, ss, us)))))"

definition parse_isoformat_date :: "string \<Rightarrow> (int \<times> int \<times> int) option" where
  "parse_isoformat_date dstr =
     (case field 4 dstr of
        Some (y, c1 # r1) \<Rightarrow>
          if c1 \<noteq> CHR ''-'' then None
          else (case field 2 r1 of
            Some (m, c2 # r2) \<Rightarrow>
              if c2 \<noteq> CHR ''-'' then None
              else (case field 2 r2 of
                Some (d, []) \<Rightarrow> Some (y, m, d)
              | _ \<Rightarrow> None)
          | _ \<Rightarrow> None)
      | _ \<Rightarrow> None)"

definition is_tz_sign :: "char \<Rightarrow> bool" where
  "is_tz_sign c = (c = CHR ''+'' \<or> c = CHR ''-'')"

definition parse_isoformat_tz :: "string \<Rightarrow> int option option" where
  "parse_isoformat_tz z =
     (case z of
        [] \<Rightarrow> Some None
      | sign # tzstr \<Rightarrow>
          if length tzstr \<noteq> 5 \<and> length tzstr \<noteq> 8 \<and> length tzstr \<noteq> 15 then None
          else (case parse_hh_mm_ss_ff tzstr of
            None \<Rightarrow> None
          | Some (hh, mm, ss, us) \<Rightarrow>
              let td = ((hh * 60 + mm) * 60 + ss) * 1000000 + us
              in Some (Some (if sign = CHR ''-'' then - td else td))))"

definition datetime_fromisoformat :: "string \<Rightarrow> datetime option" where
  "datetime_fromisoformat date_string =
     (case parse_isoformat_date (take 10 date_string) of
        None \<Rightarrow> None
      | Some (y, m, d) \<Rightarrow>
          let tstr = drop 11 date_string in
          if tstr = [] then new_datetime y m d 0 0 0 0 None
          else (case parse_hh_mm_ss_ff (takeWhile (\<lambda>c. \<not> is_tz_sign c) tstr) of
            None \<Rightarrow> None
          | Some (hh, mm, ss, us) \<Rightarrow>
              (case parse_isoformat_tz (dropWhile (\<lambda>c. \<not> is_tz_sign c) tstr) of
                 None \<Rightarrow> None
               | Some tz \<Rightarrow> new_datetime y m d hh mm ss us tz)))"

section \<open>The payloads of the GitHub API\<close>

text \<open>
  The dictionaries decoded from the API's JSON are records. A key that the source reads
  with \<^verbatim>\<open>d[key]\<close> is a field; a key that it reads with \<^verbatim>\<open>d.get(key)\<close> or
  \<^verbatim>\<open>d.get(key, default)\<close> is an optional field, \<open>None\<close> when the key is absent (or,
  for \<^verbatim>\<open>author\<close> and \<^verbatim>\<open>committer\<close>, when the API sends \<^verbatim>\<open>null\<close>). Counts are Python
  integers.
\<close>

record git_user =
  user_name :: string
  user_date :: string

record git_commit =
  message :: string
  author :: "git_user option"
  committer :: "git_user option"

record commit_item =
  sha :: string
  commit :: git_commit

record file_item =
  filename :: string
  additions :: int
  deletions :: int
  status :: string

record comparison =
  ahead_by :: "int option"
  behind_by :: "int option"
  commits :: "commit_item list option"
  files :: "file_item list option"

record branch_item =
  bi_name :: string
  bi_commit_sha :: string

record pull_item =
  pr_head_ref :: string

record repo_item =
  r_owner_login :: string
  r_name :: string
  r_full_name :: string
  r_default_branch :: "string option"
  r_private :: "bool option"
  r_html_url :: "string option"
  r_description :: "string option"
  r_updated_at :: "string option"

text \<open>
  The response of \<^verbatim>\<open>session.get\<close> on a compare URL: the status, and what \<^verbatim>\<open>resp.json()\<close>
  gives, the decoded body or the exception that a body which is not JSON raises.
\<close>

record response =
  status_code :: int
  json :: "pyerror + comparison"

text \<open>
  The client. \<^verbatim>\<open>session_get\<close> is a GET on a URL: it answers with a response, or raises
  when the transport fails. The listings of branches and of open pull requests and the
  probe for \<^verbatim>\<open>CLAUDE.md\<close> are collaborators of the scan: the fields hold the outcome of
  the methods of these names for an owner and a repository, a result or the exception
  that their own requests raise. No method of the client catches an exception.
\<close>

record client =
  session_get :: "string \<Rightarrow> pyerror + response"
  get_branches :: "string \<Rightarrow> string \<Rightarrow> pyerror + branch_item list"
  get_pulls :: "string \<Rightarrow> string \<Rightarrow> pyerror + pull_item list"
  check_claude_md :: "string \<Rightarrow> string \<Rightarrow> pyerror + bool"

text \<open>The records that \<^verbatim>\<open>scan_repo\<close> builds.\<close>

record commit_message =
  cm_sha :: string
  cm_message :: string
  cm_author :: string
  cm_date :: "string option"

record branch_record =
  br_name :: string
  br_classification :: string
  br_ahead_by :: int
  br_behind_by :: int
  br_last_commit_date :: "string option"
  br_last_commit_author :: "string option"
  br_has_pr :: bool
  br_commit_sha :: string
  br_files_changed :: "file_item list"
  br_commit_messages :: "commit_message list"

record scan_result =
  sr_owner :: string
  sr_name :: string
  sr_full_name :: string
  sr_default_branch :: string
  sr_private :: bool
  sr_html_url :: string
  sr_description :: string
  sr_updated_at :: string
  sr_branches :: "branch_record list"
  sr_branch_count :: nat
  sr_has_claude_md :: bool

section \<open>\<^verbatim>\<open>GitHubClient.compare_branches\<close>\<close>

definition GITHUB_API :: string where
  "GITHUB_API = ''https://api.github.com''"

text \<open>The URL \<^verbatim>\<open>f"{GITHUB_API}/repos/{owner}/{repo}/compare/{base}...{head}"\<close>.\<close>

definition compare_url :: "string \<Rightarrow> string \<Rightarrow> string \<Rightarrow> string \<Rightarrow> string" where
  "compare_url owner repo base head =
     GITHUB_API @ ''/repos/'' @ owner @ ''/'' @ repo @ ''/compare/'' @ base @ ''...'' @ head"

text \<open>
  The method has no \<^verbatim>\<open>try\<close>: an exception of \<^verbatim>\<open>session.get\<close> or of \<^verbatim>\<open>resp.json()\<close>
  leaves it. It returns \<^verbatim>\<open>None\<close> for a response with a status other than 200.
\<close>

definition compare_branches ::
  "client \<Rightarrow> string \<Rightarrow> string \<Rightarrow> string \<Rightarrow> string \<Rightarrow> pyerror + comparison option" where
  "compare_branches self owner repo base head =
     (case session_get self (compare_url owner repo base head) of
        Inl e \<Rightarrow> Inl e
      | Inr resp \<Rightarrow>
          if status_code resp = 200
          then (case json resp of Inl e \<Rightarrow> Inl e | Inr body \<Rightarrow> Inr (Some body))
          else Inr None)"

section \<open>\<^verbatim>\<open>GitHubClient.classify_branch\<close>\<close>

text \<open>\<^verbatim>\<open>last_commit_date.replace("Z", "+00:00")\<close>: every \<^verbatim>\<open>Z\<close> is replaced.\<close>

definition replace_Z :: "string \<Rightarrow> string" where
  "replace_Z s = concat (map (\<lambda>c. if c = CHR ''Z'' then ''+00:00'' else [c]) s)"

text \<open>
  The body of the \<^verbatim>\<open>try\<close> block: \<open>Inr True\<close> when it reaches \<^verbatim>\<open>return "STALE"\<close>,
  \<open>Inr False\<close> when it ends without returning, \<open>Inl e\<close> when it raises.
  The parser raises \<^verbatim>\<open>ValueError\<close> where \<open>fromisoformat\<close> is \<open>None\<close>.
\<close>

definition staleness ::
  "(string \<Rightarrow> datetime option) \<Rightarrow> int \<Rightarrow> string \<Rightarrow> int \<Rightarrow> pyerror + bool" where
  "staleness fromisoformat clock date_string ahead =
     (case fromisoformat (replace_Z date_string) of
        None \<Rightarrow> Inl ValueError
      | Some last_dt \<Rightarrow>
          (let now = datetime_now_utc clock in
           case datetime_sub now last_dt of
             Inl e \<Rightarrow> Inl e
           | Inr delta \<Rightarrow> Inr (days delta > 30 \<and> ahead > 0)))"

text \<open>
  The \<^verbatim>\<open>if last_commit_date:\<close> statement with its \<^verbatim>\<open>try\<close> and
  \<^verbatim>\<open>except (ValueError, TypeError): pass\<close>. \<^verbatim>\<open>None\<close> and the empty string are falsy.
\<close>

definition check_staleness ::
  "(string \<Rightarrow> datetime option) \<Rightarrow> int \<Rightarrow> string option \<Rightarrow> int \<Rightarrow> pyerror + bool" where
  "check_staleness fromisoformat clock date_opt ahead =
     (case date_opt of
        None \<Rightarrow> Inr False
      | Some s \<Rightarrow>
          if s = [] then Inr False
          else (case staleness fromisoformat clock s ahead of
                  Inl e \<Rightarrow> if e = ValueError \<or> e = TypeError then Inr False else Inl e
                | Inr stale \<Rightarrow> Inr stale))"

text \<open>
  \<open>clock\<close> is the reading of the UTC clock at the call, in microseconds
  (see \<open>datetime_now_utc\<close>).
\<close>

definition classify_branch ::
  "(string \<Rightarrow> datetime option) \<Rightarrow> int \<Rightarrow> comparison \<Rightarrow> string option \<Rightarrow> bool
     \<Rightarrow> pyerror + string" where
  "classify_branch fromisoformat clock comparison date_opt has_pr =
     (let ahead = (case ahead_by comparison of None \<Rightarrow> 0 | Some n \<Rightarrow> n);
          behind = (case behind_by comparison of None \<Rightarrow> 0 | Some n \<Rightarrow> n)
      in if has_pr then Inr ''ACTIVE PR''
         else if ahead = 0 then Inr ''SAFE TO DELETE''
         else (case check_staleness fromisoformat clock date_opt ahead of
                 Inl e \<Rightarrow> Inl e
               | Inr stale \<Rightarrow>
                   if stale then Inr ''STALE''
                   else if ahead > 0 \<and> behind > 0 then Inr ''DIVERGED''
                   else if ahead > 0 \<and> behind = 0 then Inr ''AHEAD ONLY''
                   else Inr ''AHEAD ONLY''))"

section \<open>\<^verbatim>\<open>scan_repo\<close>\<close>

text \<open>
  The last commit of the comparison: its committer date and its author name.
  \<^verbatim>\<open>comparison.get("commits")\<close> is falsy for an absent key and for an empty list.
  \<^verbatim>\<open>last_commit["commit"]["committer"]["date"]\<close> subscripts the committer without a
  guard, which raises \<^verbatim>\<open>TypeError\<close> on \<^verbatim>\<open>null\<close>.
\<close>

definition last_commit_info :: "comparison \<Rightarrow> pyerror + (string option \<times> string option)" where
  "last_commit_info comparison =
     (case commits comparison of
        None \<Rightarrow> Inr (None, None)
      | Some cs \<Rightarrow>
          if cs = [] then Inr (None, None)
          else (let last_commit = last cs in
                case committer (commit last_commit) of
                  None \<Rightarrow> Inl TypeError
                | Some c \<Rightarrow>
                    Inr (Some (user_date c),
                         Some (case author (commit last_commit) of
                                 None \<Rightarrow> ''Unknown''
                               | Some a \<Rightarrow> user_name a))))"

definition files_changed_of :: "comparison \<Rightarrow> file_item list" where
  "files_changed_of comparison =
     map (\<lambda>f. \<lparr>filename = filename f, additions = additions f,
               deletions = deletions f, status = status f\<rparr>)
       (case files comparison of None \<Rightarrow> [] | Some fs \<Rightarrow> fs)"

definition commit_messages_of :: "comparison \<Rightarrow> commit_message list" where
  "commit_messages_of comparison =
     map (\<lambda>c. \<lparr>cm_sha = take 7 (sha c),
               cm_message = takeWhile (\<lambda>ch. ch \<noteq> CHR 0x0A) (message (commit c)),
               cm_author = (case author (commit c) of None \<Rightarrow> ''Unknown'' | Some a \<Rightarrow> user_name a),
               cm_date = (case committer (commit c) of None \<Rightarrow> None | Some k \<Rightarrow> Some (user_date k))\<rparr>)
       (case commits comparison of None \<Rightarrow> [] | Some cs \<Rightarrow> cs)"

text \<open>
  One pass of the loop body for a branch whose comparison was fetched: the record that
  is appended to \<^verbatim>\<open>branch_data\<close>, or the exception that ends the scan.
\<close>

definition branch_entry ::
  "(string \<Rightarrow> datetime option) \<Rightarrow> int \<Rightarrow> string set \<Rightarrow> branch_item \<Rightarrow> comparison
     \<Rightarrow> pyerror + branch_record" where
  "branch_entry fromisoformat clock pr_branches branch comparison =
     (case last_commit_info comparison of
        Inl e \<Rightarrow> Inl e
      | Inr (date_opt, author_opt) \<Rightarrow>
          (let has_pr = (bi_name branch \<in> pr_branches) in
           case classify_branch fromisoformat clock comparison date_opt has_pr of
             Inl e \<Rightarrow> Inl e
           | Inr classification \<Rightarrow>
               Inr \<lparr>br_name = bi_name branch,
                    br_classification = classification,
                    br_ahead_by = (case ahead_by comparison of None \<Rightarrow> 0 | Some n \<Rightarrow> n),
                    br_behind_by = (case behind_by comparison of None \<Rightarrow> 0 | Some n \<Rightarrow> n),
                    br_last_commit_date = date_opt,
                    br_last_commit_author = author_opt,
                    br_has_pr = has_pr,
                    br_commit_sha = bi_commit_sha branch,
                    br_files_changed = files_changed_of comparison,
                    br_commit_messages = commit_messages_of comparison\<rparr>))"

text \<open>
  The \<^verbatim>\<open>for branch in branches\<close> loop. The clock is read anew at every classification:
  \<open>clock bname\<close> is its reading when the branch \<open>bname\<close> is classified. The loop has
  no \<^verbatim>\<open>try\<close>: an exception of \<^verbatim>\<open>compare_branches\<close> or of the loop body ends the scan.
\<close>

fun scan_branches ::
  "(string \<Rightarrow> datetime option) \<Rightarrow> (string \<Rightarrow> int) \<Rightarrow> client \<Rightarrow> string \<Rightarrow> string \<Rightarrow> string
     \<Rightarrow> string set \<Rightarrow> branch_item list \<Rightarrow> pyerror + branch_record list" where
  "scan_branches fromisoformat clock self owner name default_branch pr_branches [] = Inr []"
| "scan_branches fromisoformat clock self owner name default_branch pr_branches (branch # rest) =
     (let bname = bi_name branch in
      if bname = default_branch
      then scan_branches fromisoformat clock self owner name default_branch pr_branches rest
      else (case compare_branches self owner name default_branch bname of
        Inl e \<Rightarrow> Inl e
      | Inr None \<Rightarrow>
          scan_branches fromisoformat clock self owner name default_branch pr_branches rest
      | Inr (Some comparison) \<Rightarrow>
          (case branch_entry fromisoformat (clock bname) pr_branches branch comparison of
             Inl e \<Rightarrow> Inl e
           | Inr entry \<Rightarrow>
               (case scan_branches fromisoformat clock self owner name default_branch
                       pr_branches rest of
                  Inl e \<Rightarrow> Inl e
                | Inr entries \<Rightarrow> Inr (entry # entries)))))"

text \<open>
  The dictionary \<^verbatim>\<open>sort_order\<close> and the key \<^verbatim>\<open>sort_order.get(b["classification"], 5)\<close>.
\<close>

definition sort_order :: "string \<Rightarrow> int option" where
  "sort_order = map_of [(''DIVERGED'', 0), (''AHEAD ONLY'', 1), (''STALE'', 2),
                        (''SAFE TO DELETE'', 3), (''ACTIVE PR'', 4)]"

definition label_key :: "string \<Rightarrow> int" where
  "label_key label = (case sort_order label of None \<Rightarrow> 5 | Some k \<Rightarrow> k)"

definition branch_key :: "branch_record \<Rightarrow> int" where
  "branch_key b = label_key (br_classification b)"

text \<open>
  \<^verbatim>\<open>list.sort(key=...)\<close> is a stable sort; \<open>sort_key\<close> (insertion sort, stable) stands
  for it.
\<close>

definition scan_repo ::
  "(string \<Rightarrow> datetime option) \<Rightarrow> (string \<Rightarrow> int) \<Rightarrow> client \<Rightarrow> repo_item
     \<Rightarrow> pyerror + scan_result" where
  "scan_repo fromisoformat clock self repo =
     (let owner = r_owner_login repo;
          name = r_name repo;
          default_branch = (case r_default_branch repo of None \<Rightarrow> ''main'' | Some d \<Rightarrow> d)
      in case get_branches self owner name of
           Inl e \<Rightarrow> Inl e
         | Inr branches \<Rightarrow>
      (case get_pulls self owner name of
           Inl e \<Rightarrow> Inl e
         | Inr pulls \<Rightarrow>
      (let pr_branches = set (map pr_head_ref pulls)
       in case scan_branches fromisoformat clock self owner name default_branch pr_branches
                 branches of
           Inl e \<Rightarrow> Inl e
         | Inr branch_data \<Rightarrow>
      (let sorted_data = sort_key branch_key branch_data
       in case check_claude_md self owner name of
           Inl e \<Rightarrow> Inl e
         | Inr has_claude_md \<Rightarrow>
             Inr \<lparr>sr_owner = owner,
                  sr_name = name,
                  sr_full_name = r_full_name repo,
                  sr_default_branch = default_branch,
                  sr_private = (case r_private repo of None \<Rightarrow> False | Some p \<Rightarrow> p),
                  sr_html_url = (case r_html_url repo of None \<Rightarrow> [] | Some u \<Rightarrow> u),
                  sr_description = (case r_description repo of None \<Rightarrow> [] | Some t \<Rightarrow> t),
                  sr_updated_at = (case r_updated_at repo of None \<Rightarrow> [] | Some t \<Rightarrow> t),
                  sr_branches = sorted_data,
                  sr_branch_count = length sorted_data,
                  sr_has_claude_md = has_claude_md\<rparr>))))"

section \<open>Vocabulary of the properties\<close>

text \<open>
  The age of the last commit in whole days, as the staleness rule measures it: defined
  when the date is given, not empty, accepted by the parser and carries a UTC offset.
\<close>

definition age_days ::
  "(string \<Rightarrow> datetime option) \<Rightarrow> int \<Rightarrow> string option \<Rightarrow> int option" where
  "age_days fromisoformat clock date_opt =
     (case date_opt of
        None \<Rightarrow> None
      | Some s \<Rightarrow>
          if s = [] then None
          else (case fromisoformat (replace_Z s) of
            None \<Rightarrow> None
          | Some last_dt \<Rightarrow>
              (case utcoffset last_dt of
                 None \<Rightarrow> None
               | Some off \<Rightarrow> Some ((clock - (wall_us last_dt - off)) div us_per_day))))"

definition older_than_30_days ::
  "(string \<Rightarrow> datetime option) \<Rightarrow> int \<Rightarrow> string option \<Rightarrow> bool" where
  "older_than_30_days fromisoformat clock date_opt =
     (case age_days fromisoformat clock date_opt of None \<Rightarrow> False | Some n \<Rightarrow> n > 30)"

text \<open>The clock reading at a UTC date and time of day, for the scenarios.\<close>

definition utc_clock :: "int \<Rightarrow> int \<Rightarrow> int \<Rightarrow> int \<Rightarrow> int \<Rightarrow> int \<Rightarrow> int" where
  "utc_clock y m d hh mm ss = wall_clock y m d hh mm ss 0"

definition counts :: "int \<Rightarrow> int \<Rightarrow> comparison" where
  "counts a b = \<lparr>ahead_by = Some a, behind_by = Some b, commits = None, files = None\<rparr>"

text \<open>
  What a scan of \<open>repo\<close> with the client \<open>self\<close> works from: the default branch
  (\<^verbatim>\<open>repo.get("default_branch", "main")\<close>), the listing of the branches (empty when the
  listing raises), the outcome of \<^verbatim>\<open>compare_branches\<close> for a branch name, and the sequence
  \<^verbatim>\<open>branch_data\<close> before it is sorted. A branch is fetched when it is not the default
  branch and \<^verbatim>\<open>compare_branches\<close> returns a comparison for it.
\<close>

definition default_branch_of :: "repo_item \<Rightarrow> string" where
  "default_branch_of repo = (case r_default_branch repo of None \<Rightarrow> ''main'' | Some d \<Rightarrow> d)"

definition listed :: "client \<Rightarrow> repo_item \<Rightarrow> branch_item list" where
  "listed self repo =
     (case get_branches self (r_owner_login repo) (r_name repo) of
        Inl e \<Rightarrow> []
      | Inr branches \<Rightarrow> branches)"

definition comparison_of ::
  "client \<Rightarrow> repo_item \<Rightarrow> string \<Rightarrow> pyerror + comparison option" where
  "comparison_of self repo bname =
     compare_branches self (r_owner_login repo) (r_name repo) (default_branch_of repo) bname"

definition fetched :: "client \<Rightarrow> repo_item \<Rightarrow> branch_item \<Rightarrow> bool" where
  "fetched self repo b =
     (bi_name b \<noteq> default_branch_of repo \<and>
      (case comparison_of self repo (bi_name b) of
         Inl e \<Rightarrow> False
       | Inr None \<Rightarrow> False
       | Inr (Some comparison) \<Rightarrow> True))"

definition unsorted_branch_data ::
  "(string \<Rightarrow> datetime option) \<Rightarrow> (string \<Rightarrow> int) \<Rightarrow> client \<Rightarrow> repo_item
     \<Rightarrow> pyerror + branch_record list" where
  "unsorted_branch_data fromisoformat clock self repo =
     (case get_branches self (r_owner_login repo) (r_name repo) of
        Inl e \<Rightarrow> Inl e
      | Inr branches \<Rightarrow>
          (case get_pulls self (r_owner_login repo) (r_name repo) of
             Inl e \<Rightarrow> Inl e
           | Inr pulls \<Rightarrow>
               scan_branches fromisoformat clock self (r_owner_login repo) (r_name repo)
                 (default_branch_of repo) (set (map pr_head_ref pulls)) branches))"







text \<open>
  The author of the last commit of a comparison: the name of its author, \<^verbatim>\<open>Unknown\<close>
  when it has no author, and nothing when the comparison has no commits.
\<close>

definition last_author :: "comparison \<Rightarrow> string option" where
  "last_author comparison =
     (case commits comparison of
        None \<Rightarrow> None
      | Some cs \<Rightarrow>
          if cs = [] then None
          else Some (case author (commit (last cs)) of
                       None \<Rightarrow> ''Unknown''
                     | Some a \<Rightarrow> user_name a))"

subsection \<open>A scan of four listed branches, one of them with a failed comparison\<close>

text \<open>
  The repository \<^verbatim>\<open>octo/demo\<close> lists \<^verbatim>\<open>main\<close> (the default branch), \<^verbatim>\<open>merged\<close>,
  \<^verbatim>\<open>broken\<close> and \<^verbatim>\<open>work\<close>, in this order. The comparison of \<^verbatim>\<open>merged\<close> has no commits,
  the one of \<^verbatim>\<open>broken\<close> is answered with status 500, the one of \<^verbatim>\<open>work\<close> has two commits;
  any other URL is answered with status 404. In the second client the transport fails on
  the comparison of \<^verbatim>\<open>broken\<close>.
\<close>

definition demo_repo :: repo_item where
  "demo_repo =
     \<lparr>r_owner_login = ''octo'', r_name = ''demo'', r_full_name = ''octo/demo'',
      r_default_branch = Some ''main'', r_private = Some False,
      r_html_url = Some ''https://github.com/octo/demo'', r_description = None,
      r_updated_at = Some ''2026-02-12T09:00:00Z''\<rparr>"

definition demo_merged :: comparison where
  "demo_merged = \<lparr>ahead_by = Some 0, behind_by = Some 5, commits = Some [], files = Some []\<rparr>"

definition demo_work :: comparison where
  "demo_work =
     \<lparr>ahead_by = Some 3, behind_by = Some 2,
      commits = Some
        [\<lparr>sha = ''1a2b3c4d5e6f7a8b'',
          commit = \<lparr>message = ''Start parser'', author = None,
                    committer = Some \<lparr>user_name = ''GitHub'', user_date = ''2026-02-09T08:30:00Z''\<rparr>\<rparr>\<rparr>,
         \<lparr>sha = ''9f8e7d6c5b4a3f2e'',
          commit = \<lparr>message = ''Finish parser'' @ [CHR 0x0A, CHR 0x0A] @ ''Handles offsets.'',
                    author = Some \<lparr>user_name = ''Alice'', user_date = ''2026-02-10T10:00:00Z''\<rparr>,
                    committer = Some \<lparr>user_name = ''Alice'', user_date = ''2026-02-10T10:00:00Z''\<rparr>\<rparr>\<rparr>],
      files = Some [\<lparr>filename = ''parser.py'', additions = 10, deletions = 2,
                     status = ''modified''\<rparr>]\<rparr>"

definition demo_session_get :: "string \<Rightarrow> pyerror + response" where
  "demo_session_get url =
     (if url = ''https://api.github.com/repos/octo/demo/compare/main...merged''
        then Inr \<lparr>status_code = 200, json = Inr demo_merged\<rparr>
      else if url = ''https://api.github.com/repos/octo/demo/compare/main...work''
        then Inr \<lparr>status_code = 200, json = Inr demo_work\<rparr>
      else if url = ''https://api.github.com/repos/octo/demo/compare/main...broken''
        then Inr \<lparr>status_code = 500, json = Inl ValueError\<rparr>
      else Inr \<lparr>status_code = 404,
                json = Inr \<lparr>ahead_by = None, behind_by = None, commits = None, files = None\<rparr>\<rparr>)"

definition demo_branches :: "branch_item list" where
  "demo_branches =
     [\<lparr>bi_name = ''main'', bi_commit_sha = ''0000000000000000''\<rparr>,
      \<lparr>bi_name = ''merged'', bi_commit_sha = ''aaaaaaaaaaaaaaaa''\<rparr>,
      \<lparr>bi_name = ''broken'', bi_commit_sha = ''bbbbbbbbbbbbbbbb''\<rparr>,
      \<lparr>bi_name = ''work'', bi_commit_sha = ''9f8e7d6c5b4a3f2e''\<rparr>]"

definition demo_client :: client where
  "demo_client =
     \<lparr>session_get = demo_session_get,
      get_branches = (\<lambda>owner name. Inr demo_branches),
      get_pulls = (\<lambda>owner name. Inr []),
      check_claude_md = (\<lambda>owner name. Inr True)\<rparr>"


definition demo_clock :: "string \<Rightarrow> int" where
  "demo_clock bname = utc_clock 2026 2 14 0 0 0"

definition demo_work_record :: branch_record where
  "demo_work_record =
     \<lparr>br_name = ''work'', br_classification = ''DIVERGED'', br_ahead_by = 3, br_behind_by = 2,
      br_last_commit_date = Some ''2026-02-10T10:00:00Z'',
      br_last_commit_author = Some ''Alice'', br_has_pr = False,
      br_commit_sha = ''9f8e7d6c5b4a3f2e'',
      br_files_changed = [\<lparr>filename = ''parser.py'', additions = 10, deletions = 2,
                            status = ''modified''\<rparr>],
      br_commit_messages =
        [\<lparr>cm_sha = ''1a2b3c4'', cm_message = ''Start parser'', cm_author = ''Unknown'',
          cm_date = Some ''2026-02-09T08:30:00Z''\<rparr>,
         \<lparr>cm_sha = ''9f8e7d6'', cm_message = ''Finish parser'', cm_author = ''Alice'',
          cm_date = Some ''2026-02-10T10:00:00Z''\<rparr>]\<rparr>"

definition demo_merged_record :: branch_record where
  "demo_merged_record =
     \<lparr>br_name = ''merged'', br_classification = ''SAFE TO DELETE'', br_ahead_by = 0,
      br_behind_by = 5, br_last_commit_date = None, br_last_commit_author = None,
      br_has_pr = False, br_commit_sha = ''aaaaaaaaaaaaaaaa'', br_files_changed = [],
      br_commit_messages = []\<rparr>"

definition demo_result :: scan_result where
  "demo_result =
     \<lparr>sr_owner = ''octo'', sr_name = ''demo'', sr_full_name = ''octo/demo'',
      sr_default_branch = ''main'', sr_private = False,
      sr_html_url = ''https://github.com/octo/demo'', sr_description = [],
      sr_updated_at = ''2026-02-12T09:00:00Z'',
      sr_branches = [demo_work_record, demo_merged_record],
      sr_branch_count = 2, sr_has_claude_md = True\<rparr>"

section \<open>Properties of \<^verbatim>\<open>classify_branch\<close>\<close>

lemma staleness_raises:
  "staleness f clock s ahead = Inl e \<Longrightarrow> e = ValueError \<or> e = TypeError"
  by (auto simp: staleness_def datetime_sub_def datetime_now_utc_def Let_def
           split: option.splits sum.splits)

lemma check_staleness_eq:
  "check_staleness f clock d ahead = Inr (older_than_30_days f clock d \<and> ahead > 0)"
  by (auto simp: check_staleness_def staleness_def datetime_sub_def datetime_now_utc_def
                 older_than_30_days_def age_days_def days_def Let_def
           split: option.splits sum.splits)

lemma classify_branch_eq:
  "classify_branch f clock c d p =
     Inr (let ahead = (case ahead_by c of None \<Rightarrow> 0 | Some n \<Rightarrow> n);
              behind = (case behind_by c of None \<Rightarrow> 0 | Some n \<Rightarrow> n)
          in if p then ''ACTIVE PR''
             else if ahead = 0 then ''SAFE TO DELETE''
             else if older_than_30_days f clock d \<and> ahead > 0 then ''STALE''
             else if ahead > 0 \<and> behind > 0 then ''DIVERGED''
             else ''AHEAD ONLY'')"
  by (simp add: classify_branch_def check_staleness_eq Let_def)

lemma days_gt_30_iff: "days delta > 30 \<longleftrightarrow> 31 * us_per_day \<le> delta"
  unfolding days_def us_per_day_def by linarith

lemma age_days_mono:
  assumes "clock1 \<le> clock2" and "age_days f clock1 d = Some n"
  shows "\<exists>m. age_days f clock2 d = Some m \<and> n \<le> m"
proof -
  have pos: "(0::int) < us_per_day" by (simp add: us_per_day_def)
  from assms show ?thesis
    by (auto simp: age_days_def zdiv_mono1 [OF _ pos] split: option.splits if_splits)
qed

lemma older_than_30_days_mono:
  assumes "clock1 \<le> clock2" and "older_than_30_days f clock1 d"
  shows "older_than_30_days f clock2 d"
proof -
  from assms(2) obtain n where n: "age_days f clock1 d = Some n" "n > 30"
    by (auto simp: older_than_30_days_def split: option.splits)
  from age_days_mono [OF assms(1) n(1)] obtain m where "age_days f clock2 d = Some m" "n \<le> m"
    by blast
  with n(2) show ?thesis by (simp add: older_than_30_days_def)
qed

text \<open>
  The six cases of \<^verbatim>\<open>TestGitHubClassification\<close> in \<^verbatim>\<open>src/tests/test_app.py\<close>, run with
  the clock at 2026-02-14T00:00:00 UTC.
\<close>

lemma test_safe_to_delete:
  "classify_branch datetime_fromisoformat (utc_clock 2026 2 14 0 0 0) (counts 0 5) None False
     = Inr ''SAFE TO DELETE''"
  by code_simp

lemma test_ahead_only:
  "classify_branch datetime_fromisoformat (utc_clock 2026 2 14 0 0 0) (counts 3 0)
     (Some ''2026-02-13T00:00:00Z'') False = Inr ''AHEAD ONLY''"
  by code_simp

lemma test_diverged:
  "classify_branch datetime_fromisoformat (utc_clock 2026 2 14 0 0 0) (counts 3 2)
     (Some ''2026-02-13T00:00:00Z'') False = Inr ''DIVERGED''"
  by code_simp

lemma test_stale:
  "classify_branch datetime_fromisoformat (utc_clock 2026 2 14 0 0 0) (counts 1 0)
     (Some ''2025-12-01T00:00:00Z'') False = Inr ''STALE''"
  by code_simp

lemma test_active_pr:
  "classify_branch datetime_fromisoformat (utc_clock 2026 2 14 0 0 0) (counts 5 2)
     (Some ''2026-02-13T00:00:00Z'') True = Inr ''ACTIVE PR''"
  by code_simp

lemma test_safe_to_delete_with_pr:
  "classify_branch datetime_fromisoformat (utc_clock 2026 2 14 0 0 0) (counts 0 0) None True
     = Inr ''ACTIVE PR''"
  by code_simp

text \<open>
  C1. With an open pull request the label is \<^verbatim>\<open>ACTIVE PR\<close>, whatever the counts, the date,
  the parser and the clock are; a branch with an open pull request that is 0 ahead and
  0 behind is not \<^verbatim>\<open>SAFE TO DELETE\<close>.
\<close>

theorem open_pr_is_active_pr:
  "classify_branch f clock c d True = Inr ''ACTIVE PR'' \<and>
   classify_branch f clock
       \<lparr>ahead_by = Some 0, behind_by = Some 0, commits = cs, files = fs\<rparr> d True
     \<noteq> Inr ''SAFE TO DELETE''"
  by (simp add: classify_branch_eq)

text \<open>
  C2, as the code has it. Without an open pull request and with \<open>ahead_by > 0\<close>, a last
  commit date that is not empty, that the parser accepts as a datetime with a UTC offset,
  and whose distance to the current UTC time has a whole-day count above 30 (that is, at
  least 31 days, see \<open>days_gt_30_iff\<close>) gives \<^verbatim>\<open>STALE\<close>.
\<close>

theorem old_unmerged_branch_is_stale:
  assumes "ahead_by c = Some a" and "a > 0"
    and "s \<noteq> []" and "f (replace_Z s) = Some last_dt" and "utcoffset last_dt = Some off"
    and "days (clock - (wall_us last_dt - off)) > 30"
  shows "classify_branch f clock c (Some s) False = Inr ''STALE''"
  using assms
  by (simp add: classify_branch_eq older_than_30_days_def age_days_def days_def)

theorem old_unmerged_branch_is_stale_witness:
  "classify_branch datetime_fromisoformat (utc_clock 2026 2 13 0 0 0) (counts 1 0)
     (Some ''2025-12-01T00:00:00Z'') False = Inr ''STALE''"
proof -
  let ?dt = "\<lparr>wall_us = utc_clock 2025 12 1 0 0 0, utcoffset = Some 0\<rparr>"
  have a: "ahead_by (counts 1 0) = Some 1"
    by (simp add: counts_def)
  have p: "datetime_fromisoformat (replace_Z ''2025-12-01T00:00:00Z'') = Some ?dt"
    by code_simp
  have o: "utcoffset ?dt = Some 0"
    by simp
  have d: "days (utc_clock 2026 2 13 0 0 0 - (wall_us ?dt - 0)) > 30"
    by code_simp
  show ?thesis
    using old_unmerged_branch_is_stale
      [where c = "counts 1 0" and a = 1 and s = "''2025-12-01T00:00:00Z''"
         and f = datetime_fromisoformat and last_dt = ?dt and off = 0
         and clock = "utc_clock 2026 2 13 0 0 0"] a p o d
    by simp
qed

text \<open>
  C2 as stated fails: a last commit 30 days and 12 hours before the current UTC time is
  strictly more than 30 days old, and the branch is \<^verbatim>\<open>AHEAD ONLY\<close>.
\<close>

theorem stale_threshold_counterexample:
  "datetime_fromisoformat (replace_Z ''2026-01-13T12:00:00Z'')
     = Some \<lparr>wall_us = utc_clock 2026 1 13 12 0 0, utcoffset = Some 0\<rparr> \<and>
   utc_clock 2026 2 13 0 0 0 - utc_clock 2026 1 13 12 0 0 > 30 * us_per_day \<and>
   classify_branch datetime_fromisoformat (utc_clock 2026 2 13 0 0 0) (counts 1 0)
     (Some ''2026-01-13T12:00:00Z'') False = Inr ''AHEAD ONLY''"
  by code_simp

text \<open>
  A date without a UTC offset is parsed, but subtracting it from the aware current time
  raises \<^verbatim>\<open>TypeError\<close>, which the \<^verbatim>\<open>except\<close> clause passes over: no staleness.
\<close>

lemma naive_date_is_never_stale:
  "datetime_fromisoformat (replace_Z ''2025-12-01T00:00:00'')
     = Some \<lparr>wall_us = utc_clock 2025 12 1 0 0 0, utcoffset = None\<rparr> \<and>
   classify_branch datetime_fromisoformat (utc_clock 2026 2 13 0 0 0) (counts 1 0)
     (Some ''2025-12-01T00:00:00'') False = Inr ''AHEAD ONLY''"
  by code_simp

text \<open>
  C3, as the code has it. Without an open pull request, with \<open>ahead_by > 0\<close> and
  \<open>behind_by > 0\<close>, the label is \<^verbatim>\<open>DIVERGED\<close> unless the staleness rule, which comes
  first, applies; then it is \<^verbatim>\<open>STALE\<close>.
\<close>

theorem diverged_unless_stale:
  assumes "ahead_by c = Some a" and "a > 0" and "behind_by c = Some b" and "b > 0"
  shows "classify_branch f clock c d False
           = Inr (if older_than_30_days f clock d then ''STALE'' else ''DIVERGED'')"
  using assms by (simp add: classify_branch_eq)

theorem diverged_unless_stale_witness:
  "classify_branch datetime_fromisoformat (utc_clock 2026 2 14 0 0 0) (counts 3 2)
     (Some ''2026-02-13T00:00:00Z'') False = Inr ''DIVERGED''"
proof -
  have a: "ahead_by (counts 3 2) = Some 3" and b: "behind_by (counts 3 2) = Some 2"
    by (simp_all add: counts_def)
  have n: "\<not> older_than_30_days datetime_fromisoformat (utc_clock 2026 2 14 0 0 0)
               (Some ''2026-02-13T00:00:00Z'')"
    by code_simp
  show ?thesis
    using diverged_unless_stale [OF a _ b, of datetime_fromisoformat "utc_clock 2026 2 14 0 0 0"
        "Some ''2026-02-13T00:00:00Z''"] n
    by simp
qed

text \<open>
  C3 as stated fails: a branch 1 ahead and 2 behind whose last commit is 74 days old is
  \<^verbatim>\<open>STALE\<close>.
\<close>

theorem diverged_counterexample:
  "classify_branch datetime_fromisoformat (utc_clock 2026 2 13 0 0 0) (counts 1 2)
     (Some ''2025-12-01T00:00:00Z'') False = Inr ''STALE''"
  by code_simp

text \<open>
  C7. \<^verbatim>\<open>classify_branch\<close> never raises: for every comparison, date (absent, empty,
  unparsable or parsable), flag, parser and clock reading it returns one of the five
  labels. An empty date, a date that the parser rejects, and a date without a UTC offset
  give the label that the absent date gives: the staleness rule is skipped and the
  remaining rules decide, which for the absent date are the rules on the open pull
  request and on the two counts.
\<close>

theorem classify_branch_never_raises:
  "(\<exists>label. classify_branch f clock c d p = Inr label \<and>
      label \<in> set [''ACTIVE PR'', ''SAFE TO DELETE'', ''STALE'', ''DIVERGED'', ''AHEAD ONLY'']) \<and>
   classify_branch f clock c (Some []) p = classify_branch f clock c None p \<and>
   (f (replace_Z s) = None \<longrightarrow>
      classify_branch f clock c (Some s) p = classify_branch f clock c None p) \<and>
   (\<forall>last_dt. f (replace_Z s) = Some last_dt \<and> utcoffset last_dt = None \<longrightarrow>
      classify_branch f clock c (Some s) p = classify_branch f clock c None p) \<and>
   classify_branch f clock c None p =
     Inr (if p then ''ACTIVE PR''
          else if (case ahead_by c of None \<Rightarrow> 0 | Some n \<Rightarrow> n) = 0 then ''SAFE TO DELETE''
          else if (case ahead_by c of None \<Rightarrow> 0 | Some n \<Rightarrow> n) > 0
                  \<and> (case behind_by c of None \<Rightarrow> 0 | Some n \<Rightarrow> n) > 0 then ''DIVERGED''
          else ''AHEAD ONLY'')"
  by (auto simp: classify_branch_eq older_than_30_days_def age_days_def Let_def
           split: option.splits)

theorem classify_branch_never_raises_witness:
  "datetime_fromisoformat (replace_Z ''last Tuesday'') = None \<and>
   classify_branch datetime_fromisoformat (utc_clock 2026 2 13 0 0 0) (counts 3 2)
       (Some ''last Tuesday'') False
     = classify_branch datetime_fromisoformat (utc_clock 2026 2 13 0 0 0) (counts 3 2) None False \<and>
   classify_branch datetime_fromisoformat (utc_clock 2026 2 13 0 0 0) (counts 3 2) None False
     = Inr ''DIVERGED''"
proof -
  have n: "datetime_fromisoformat (replace_Z ''last Tuesday'') = None"
    by code_simp
  have r: "classify_branch datetime_fromisoformat (utc_clock 2026 2 13 0 0 0) (counts 3 2)
             None False = Inr ''DIVERGED''"
    by code_simp
  show ?thesis
    using classify_branch_never_raises
      [of datetime_fromisoformat "utc_clock 2026 2 13 0 0 0" "counts 3 2" None False
          "''last Tuesday''"] n r
    by simp
qed

text \<open>
  C8, as the code has it. \<^verbatim>\<open>classify_branch\<close> reads the UTC clock, and its label is a
  function of its arguments and of that reading. For the same arguments, a call at a
  later time returns the label of the earlier call, unless the branch has become stale
  in between: then the earlier label is \<^verbatim>\<open>DIVERGED\<close> or \<^verbatim>\<open>AHEAD ONLY\<close> and the later
  one is \<^verbatim>\<open>STALE\<close>.
\<close>

theorem label_changes_only_by_staleness:
  assumes "clock1 \<le> clock2"
  shows "classify_branch f clock1 c d p = classify_branch f clock2 c d p \<or>
         (classify_branch f clock2 c d p = Inr ''STALE'' \<and>
          classify_branch f clock1 c d p \<in> {Inr ''DIVERGED'', Inr ''AHEAD ONLY''})"
  using older_than_30_days_mono [OF assms, of f d]
  by (auto simp: classify_branch_eq Let_def)

theorem label_changes_only_by_staleness_witness:
  "utc_clock 2026 2 14 0 0 0 \<le> utc_clock 2026 4 1 0 0 0 \<and>
   classify_branch datetime_fromisoformat (utc_clock 2026 4 1 0 0 0) (counts 3 0)
       (Some ''2026-02-13T00:00:00Z'') False = Inr ''STALE'' \<and>
   classify_branch datetime_fromisoformat (utc_clock 2026 2 14 0 0 0) (counts 3 0)
       (Some ''2026-02-13T00:00:00Z'') False \<in> {Inr ''DIVERGED'', Inr ''AHEAD ONLY''}"
proof -
  have le: "utc_clock 2026 2 14 0 0 0 \<le> utc_clock 2026 4 1 0 0 0"
    by code_simp
  have ne: "classify_branch datetime_fromisoformat (utc_clock 2026 2 14 0 0 0) (counts 3 0)
       (Some ''2026-02-13T00:00:00Z'') False \<noteq>
     classify_branch datetime_fromisoformat (utc_clock 2026 4 1 0 0 0) (counts 3 0)
       (Some ''2026-02-13T00:00:00Z'') False"
    by code_simp
  show ?thesis
    using label_changes_only_by_staleness [OF le, of datetime_fromisoformat "counts 3 0"
        "Some ''2026-02-13T00:00:00Z''" False] le ne
    by simp
qed

text \<open>
  C8 as stated fails: the same comparison, date and flag give \<^verbatim>\<open>AHEAD ONLY\<close> on
  2026-02-14 and \<^verbatim>\<open>STALE\<close> on 2026-04-01.
\<close>

theorem clock_dependence_counterexample:
  "classify_branch datetime_fromisoformat (utc_clock 2026 2 14 0 0 0) (counts 3 0)
       (Some ''2026-02-13T00:00:00Z'') False = Inr ''AHEAD ONLY'' \<and>
   classify_branch datetime_fromisoformat (utc_clock 2026 4 1 0 0 0) (counts 3 0)
       (Some ''2026-02-13T00:00:00Z'') False = Inr ''STALE''"
  by code_simp

text \<open>
  C10. A comparison without the key \<^verbatim>\<open>ahead_by\<close> is classified as the same comparison
  with \<open>ahead_by = 0\<close>, and likewise for \<^verbatim>\<open>behind_by\<close>; without the key \<^verbatim>\<open>ahead_by\<close>
  and without an open pull request the label is \<^verbatim>\<open>SAFE TO DELETE\<close>.
\<close>

theorem missing_count_is_zero:
  "classify_branch f clock (c\<lparr>ahead_by := None\<rparr>) d p
     = classify_branch f clock (c\<lparr>ahead_by := Some 0\<rparr>) d p \<and>
   classify_branch f clock (c\<lparr>behind_by := None\<rparr>) d p
     = classify_branch f clock (c\<lparr>behind_by := Some 0\<rparr>) d p \<and>
   classify_branch f clock (c\<lparr>ahead_by := None\<rparr>) d False = Inr ''SAFE TO DELETE''"
  by (simp add: classify_branch_eq)

section \<open>Properties of \<^verbatim>\<open>scan_repo\<close>\<close>

lemma compare_branches_listing [simp]:
  "compare_branches (self\<lparr>get_branches := g\<rparr>) = compare_branches self"
  by (simp add: compare_branches_def fun_eq_iff)



lemma branch_entry_name:
  "branch_entry f t prs b cmp = Inr e \<Longrightarrow> br_name e = bi_name b"
  by (auto simp: branch_entry_def Let_def split: sum.splits prod.splits)

lemma branch_entry_author:
  "branch_entry f t prs b cmp = Inr e \<Longrightarrow> br_last_commit_author e = last_author cmp"
  by (auto simp: branch_entry_def last_commit_info_def last_author_def Let_def
           split: sum.splits prod.splits option.splits if_splits)




lemma scan_branches_names:
  "scan_branches f clock self owner name dflt prs bs = Inr recs \<Longrightarrow>
   map br_name recs
     = map bi_name
         (filter (\<lambda>b. bi_name b \<noteq> dflt
                       \<and> (\<exists>cmp. compare_branches self owner name dflt (bi_name b)
                                  = Inr (Some cmp))) bs)"
proof (induction bs arbitrary: recs)
  case Nil
  then show ?case by simp
next
  case (Cons b bs)
  then show ?case
    by (auto simp: Let_def branch_entry_name split: option.splits sum.splits if_splits)
qed

lemma scan_branches_entries:
  "scan_branches f clock self owner name dflt prs bs = Inr recs \<Longrightarrow> e \<in> set recs \<Longrightarrow>
   \<exists>b \<in> set bs. \<exists>cmp. bi_name b \<noteq> dflt
      \<and> compare_branches self owner name dflt (bi_name b) = Inr (Some cmp)
      \<and> branch_entry f (clock (bi_name b)) prs b cmp = Inr e"
proof (induction bs arbitrary: recs)
  case Nil
  then show ?case by simp
next
  case (Cons b bs)
  then show ?case
    by (auto simp: Let_def split: option.splits sum.splits if_splits)
qed



lemma scan_repo_eq:
  "scan_repo f clock self repo =
     (case unsorted_branch_data f clock self repo of
        Inl e \<Rightarrow> Inl e
      | Inr branch_data \<Rightarrow>
          (case check_claude_md self (r_owner_login repo) (r_name repo) of
             Inl e \<Rightarrow> Inl e
           | Inr has_claude_md \<Rightarrow>
               Inr \<lparr>sr_owner = r_owner_login repo,
                    sr_name = r_name repo,
                    sr_full_name = r_full_name repo,
                    sr_default_branch = default_branch_of repo,
                    sr_private = (case r_private repo of None \<Rightarrow> False | Some p \<Rightarrow> p),
                    sr_html_url = (case r_html_url repo of None \<Rightarrow> [] | Some u \<Rightarrow> u),
                    sr_description = (case r_description repo of None \<Rightarrow> [] | Some t \<Rightarrow> t),
                    sr_updated_at = (case r_updated_at repo of None \<Rightarrow> [] | Some t \<Rightarrow> t),
                    sr_branches = sort_key branch_key branch_data,
                    sr_branch_count = length (sort_key branch_key branch_data),
                    sr_has_claude_md = has_claude_md\<rparr>))"
  by (simp add: scan_repo_def unsorted_branch_data_def default_branch_of_def Let_def
           split: sum.splits)

lemma scan_repo_returns:
  assumes "scan_repo f clock self repo = Inr r"
  obtains branch_data where "unsorted_branch_data f clock self repo = Inr branch_data"
    and "sr_branches r = sort_key branch_key branch_data"
    and "sr_branch_count r = length (sr_branches r)"
    and "sr_default_branch r = default_branch_of repo"
  using assms by (auto simp: scan_repo_eq split: sum.splits)

lemma unsorted_scan:
  assumes "unsorted_branch_data f clock self repo = Inr branch_data"
  obtains prs where
    "scan_branches f clock self (r_owner_login repo) (r_name repo) (default_branch_of repo)
       prs (listed self repo) = Inr branch_data"
  using assms by (auto simp: unsorted_branch_data_def listed_def split: sum.splits)

lemma fetched_eq:
  "fetched self repo
     = (\<lambda>b. bi_name b \<noteq> default_branch_of repo
            \<and> (\<exists>cmp. compare_branches self (r_owner_login repo) (r_name repo)
                        (default_branch_of repo) (bi_name b) = Inr (Some cmp)))"
  by (auto simp: fetched_def comparison_of_def fun_eq_iff split: sum.splits option.splits)

lemma unsorted_names:
  assumes "unsorted_branch_data f clock self repo = Inr branch_data"
  shows "map br_name branch_data = map bi_name (filter (fetched self repo) (listed self repo))"
proof -
  from assms obtain prs where
    "scan_branches f clock self (r_owner_login repo) (r_name repo) (default_branch_of repo)
       prs (listed self repo) = Inr branch_data"
    by (rule unsorted_scan)
  from scan_branches_names [OF this] show ?thesis
    by (simp only: fetched_eq)
qed

lemma unsorted_entries:
  assumes "unsorted_branch_data f clock self repo = Inr branch_data" and "e \<in> set branch_data"
  shows "\<exists>b \<in> set (listed self repo). \<exists>cmp t prs. fetched self repo b
           \<and> comparison_of self repo (bi_name b) = Inr (Some cmp)
           \<and> branch_entry f t prs b cmp = Inr e"
proof -
  from assms(1) obtain prs where
    "scan_branches f clock self (r_owner_login repo) (r_name repo) (default_branch_of repo)
       prs (listed self repo) = Inr branch_data"
    by (rule unsorted_scan)
  from scan_branches_entries [OF this assms(2)] show ?thesis
    by (fastforce simp: fetched_def comparison_of_def)
qed


lemma label_key_table:
  "label_key l =
     (if l = ''DIVERGED'' then 0 else if l = ''AHEAD ONLY'' then 1 else if l = ''STALE'' then 2
      else if l = ''SAFE TO DELETE'' then 3 else if l = ''ACTIVE PR'' then 4 else 5)"
  by (simp add: label_key_def sort_order_def)

lemma demo_scan:
  "scan_repo datetime_fromisoformat demo_clock demo_client demo_repo = Inr demo_result"
  by code_simp

lemma demo_unsorted:
  "unsorted_branch_data datetime_fromisoformat demo_clock demo_client demo_repo
     = Inr [demo_merged_record, demo_work_record]"
  by code_simp


text \<open>
  C4. The branches of a scan result are sorted ascending by the key of their label
  (\<^verbatim>\<open>DIVERGED\<close> 0, \<^verbatim>\<open>AHEAD ONLY\<close> 1, \<^verbatim>\<open>STALE\<close> 2, \<^verbatim>\<open>SAFE TO DELETE\<close> 3, \<^verbatim>\<open>ACTIVE PR\<close> 4,
  any other label 5). The records with one key stand in the order in which the loop
  appended them, which is the order of the listing; sorting the result again by the key
  gives the same sequence.
\<close>

theorem branches_sorted_by_label:
  assumes "scan_repo f clock self repo = Inr r"
  shows "sorted (map branch_key (sr_branches r)) \<and>
         (\<exists>branch_data. unsorted_branch_data f clock self repo = Inr branch_data \<and>
            map br_name branch_data
              = map bi_name (filter (fetched self repo) (listed self repo)) \<and>
            (\<forall>k. filter (\<lambda>b. branch_key b = k) (sr_branches r)
                  = filter (\<lambda>b. branch_key b = k) branch_data)) \<and>
         sort_key branch_key (sr_branches r) = sr_branches r \<and>
         (\<forall>b. branch_key b =
            (if br_classification b = ''DIVERGED'' then 0
             else if br_classification b = ''AHEAD ONLY'' then 1
             else if br_classification b = ''STALE'' then 2
             else if br_classification b = ''SAFE TO DELETE'' then 3
             else if br_classification b = ''ACTIVE PR'' then 4
             else 5))"
proof -
  from assms obtain branch_data
    where bd: "unsorted_branch_data f clock self repo = Inr branch_data"
      and srt: "sr_branches r = sort_key branch_key branch_data"
    by (rule scan_repo_returns)
  have 1: "sorted (map branch_key (sr_branches r))"
    by (simp add: srt)
  have 2: "\<forall>k. filter (\<lambda>b. branch_key b = k) (sr_branches r)
                 = filter (\<lambda>b. branch_key b = k) branch_data"
    by (simp add: srt sort_key_stable)
  have 3: "sort_key branch_key (sr_branches r) = sr_branches r"
    using 1 by (rule sort_key_id_if_sorted)
  have 4: "\<forall>b. branch_key b =
            (if br_classification b = ''DIVERGED'' then 0
             else if br_classification b = ''AHEAD ONLY'' then 1
             else if br_classification b = ''STALE'' then 2
             else if br_classification b = ''SAFE TO DELETE'' then 3
             else if br_classification b = ''ACTIVE PR'' then 4
             else 5)"
    by (simp add: branch_key_def label_key_table)
  from 1 bd unsorted_names [OF bd] 2 3 4 show ?thesis
    by blast
qed

theorem branches_sorted_by_label_witness:
  "scan_repo datetime_fromisoformat demo_clock demo_client demo_repo = Inr demo_result \<and>
   map br_name (sr_branches demo_result) = [''work'', ''merged''] \<and>
   map bi_name (listed demo_client demo_repo) = [''main'', ''merged'', ''broken'', ''work''] \<and>
   sorted (map branch_key (sr_branches demo_result)) \<and>
   map branch_key (sr_branches demo_result) = [0, 3]"
proof -
  have "map br_name (sr_branches demo_result) = [''work'', ''merged'']"
    and "map bi_name (listed demo_client demo_repo) = [''main'', ''merged'', ''broken'', ''work'']"
    and "map branch_key (sr_branches demo_result) = [0, 3]"
    by code_simp+
  with branches_sorted_by_label [OF demo_scan] demo_scan show ?thesis
    by simp
qed





text \<open>
  C6. In a scan result no branch record bears the name of the default branch, and
  \<^verbatim>\<open>branch_count\<close> is the length of \<^verbatim>\<open>branches\<close>.
\<close>

theorem default_branch_not_in_branches:
  assumes "scan_repo f clock self repo = Inr r"
  shows "(\<forall>b \<in> set (sr_branches r). br_name b \<noteq> sr_default_branch r) \<and>
         sr_default_branch r = default_branch_of repo \<and>
         sr_branch_count r = length (sr_branches r)"
proof -
  from assms obtain branch_data
    where bd: "unsorted_branch_data f clock self repo = Inr branch_data"
      and srt: "sr_branches r = sort_key branch_key branch_data"
      and cnt: "sr_branch_count r = length (sr_branches r)"
      and dflt: "sr_default_branch r = default_branch_of repo"
    by (rule scan_repo_returns)
  have "br_name ` set (sr_branches r) = set (map br_name branch_data)"
    by (simp add: srt)
  also have "\<dots> = bi_name ` set (filter (fetched self repo) (listed self repo))"
    by (simp add: unsorted_names [OF bd])
  finally have names: "br_name ` set (sr_branches r)
      = bi_name ` set (filter (fetched self repo) (listed self repo))" .
  have "\<forall>b \<in> set (sr_branches r). br_name b \<noteq> default_branch_of repo"
  proof
    fix b assume "b \<in> set (sr_branches r)"
    with names have "br_name b \<in> bi_name ` set (filter (fetched self repo) (listed self repo))"
      by blast
    then show "br_name b \<noteq> default_branch_of repo"
      by (auto simp: fetched_def)
  qed
  with cnt dflt show ?thesis
    by simp
qed

theorem default_branch_not_in_branches_witness:
  "scan_repo datetime_fromisoformat demo_clock demo_client demo_repo = Inr demo_result \<and>
   ''main'' \<in> bi_name ` set (listed demo_client demo_repo) \<and>
   sr_default_branch demo_result = ''main'' \<and>
   ''main'' \<notin> br_name ` set (sr_branches demo_result) \<and>
   sr_branch_count demo_result = length (sr_branches demo_result)"
proof -
  have "''main'' \<in> bi_name ` set (listed demo_client demo_repo)"
    and "sr_default_branch demo_result = ''main''"
    by code_simp+
  with default_branch_not_in_branches [OF demo_scan] demo_scan show ?thesis
    by auto
qed

text \<open>
  C9, as the code has it. In every branch record of a scan result,
  \<^verbatim>\<open>last_commit_author\<close> comes from the last element of the commit list of the branch's
  comparison: it is the name of that commit's author, \<^verbatim>\<open>Unknown\<close> when the commit has no
  author, and it is \<^verbatim>\<open>None\<close>, not a string, when the comparison has no commits.
\<close>

theorem last_commit_author_of_last_commit:
  assumes "scan_repo f clock self repo = Inr r" and "e \<in> set (sr_branches r)"
  shows "\<exists>cmp. comparison_of self repo (br_name e) = Inr (Some cmp) \<and>
           br_last_commit_author e = last_author cmp \<and>
           (br_last_commit_author e = None
              \<longleftrightarrow> commits cmp = None \<or> commits cmp = Some [])"
proof -
  from assms(1) obtain branch_data
    where bd: "unsorted_branch_data f clock self repo = Inr branch_data"
      and srt: "sr_branches r = sort_key branch_key branch_data"
    by (rule scan_repo_returns)
  from assms(2) have "e \<in> set branch_data"
    by (simp add: srt)
  from unsorted_entries [OF bd this] obtain b cmp t prs
    where cmp: "comparison_of self repo (bi_name b) = Inr (Some cmp)"
      and entry: "branch_entry f t prs b cmp = Inr e"
    by blast
  have "br_last_commit_author e = last_author cmp"
    using entry by (rule branch_entry_author)
  moreover have "last_author cmp = None \<longleftrightarrow> commits cmp = None \<or> commits cmp = Some []"
    by (simp add: last_author_def split: option.splits)
  ultimately show ?thesis
    using cmp branch_entry_name [OF entry] by auto
qed

theorem last_commit_author_of_last_commit_witness:
  "scan_repo datetime_fromisoformat demo_clock demo_client demo_repo = Inr demo_result \<and>
   demo_work_record \<in> set (sr_branches demo_result) \<and>
   comparison_of demo_client demo_repo (br_name demo_work_record) = Inr (Some demo_work) \<and>
   last_author demo_work = Some ''Alice'' \<and>
   br_last_commit_author demo_work_record = Some ''Alice''"
proof -
  have m: "demo_work_record \<in> set (sr_branches demo_result)"
    by (simp add: demo_result_def)
  have c: "comparison_of demo_client demo_repo (br_name demo_work_record) = Inr (Some demo_work)"
    and a: "last_author demo_work = Some ''Alice''"
    by code_simp+
  show ?thesis
    using last_commit_author_of_last_commit [OF demo_scan m] demo_scan m c a
    by auto
qed

text \<open>
  C9 as stated fails: the record of the branch \<^verbatim>\<open>merged\<close>, whose comparison has an empty
  commit list, has \<^verbatim>\<open>None\<close> as \<^verbatim>\<open>last_commit_author\<close>.
\<close>

theorem last_commit_author_counterexample:
  "scan_repo datetime_fromisoformat demo_clock demo_client demo_repo = Inr demo_result \<and>
   demo_merged_record \<in> set (sr_branches demo_result) \<and>
   commits demo_merged = Some [] \<and>
   br_last_commit_author demo_merged_record = None"
  by code_simp

end
